theory Spec2Isabelle
  imports Main "HOL-Library.Sublist" "HOL-Library.AList"
begin

section \<open>Python values and built-ins used by the trainers\<close>

text \<open>
  The trainers of \<^verbatim>\<open>delira/training/pytorch_trainer.py\<close> and
  \<^verbatim>\<open>delira/training/backends/chainer/trainer.py\<close> are embedded as functions on an
  explicit trainer state. Exceptions are values: a pure computation returns
  \<open>py_error + 'a\<close> (\<open>Inl\<close> the exception), a method that mutates the trainer returns an
  \<open>outcome\<close>, which keeps the trainer as it was when the exception left the method (Python
  does not roll attribute assignments back).

  A method \<open>m\<close> of \<open>PyTorchNetworkTrainer\<close> is \<open>torch_m\<close>, one of
  \<open>ChainerNetworkTrainer\<close> is \<open>chainer_m\<close>; the private \<open>_update_state\<close> is
  \<open>torch_private_update_state\<close> and \<open>chainer_private_update_state\<close>. The two blocks of
  \<open>_setup\<close> that load the latest checkpoint and place the module are \<open>_setup_resume\<close>
  and \<open>_setup_devices\<close>.
\<close>

datatype py_error =
  KeyError | ValueError | ZeroDivisionError | RuntimeError | UnboundLocalError | OSError
| TypeError

datatype 's outcome = Done 's | Raised py_error 's

fun state_of :: "'s outcome \<Rightarrow> 's" where
  "state_of (Done s) = s"
| "state_of (Raised e s) = s"

fun raised :: "'s outcome \<Rightarrow> py_error option" where
  "raised (Done s) = None"
| "raised (Raised e s) = Some e"

subsection \<open>Strings\<close>

text \<open>
  File names are byte strings. \<open>str.startswith\<close> and \<open>str.endswith\<close> are the prefix
  and suffix orders; \<open>x[:-1]\<close> is \<open>butlast\<close>.
\<close>

definition startswith :: "string \<Rightarrow> string \<Rightarrow> bool" where
  "startswith x p \<longleftrightarrow> prefix p x"

definition endswith :: "string \<Rightarrow> string \<Rightarrow> bool" where
  "endswith x p \<longleftrightarrow> suffix p x"

text \<open>
  \<open>x.rsplit(sep, 1)\<close> for a one-character separator: the string is cut at the last
  occurrence of \<open>sep\<close>; without an occurrence the result is the one-element list \<open>[x]\<close>.
\<close>

definition rsplit1 :: "string \<Rightarrow> char \<Rightarrow> string list" where
  "rsplit1 x sep =
     (if sep \<in> set x
      then [rev (tl (dropWhile (\<lambda>c. c \<noteq> sep) (rev x))),
            rev (takeWhile (\<lambda>c. c \<noteq> sep) (rev x))]
      else [x])"

subsection \<open>Decimal formatting and \<open>int()\<close>\<close>

definition digit_char :: "nat \<Rightarrow> char" where
  "digit_char d = ''0123456789'' ! d"

function show_nat :: "nat \<Rightarrow> string" where
  "show_nat n = (if n < 10 then [digit_char n] else show_nat (n div 10) @ [digit_char (n mod 10)])"
  by pat_completeness auto
termination
  by (relation "measure (\<lambda>n. n)") auto

declare show_nat.simps [simp del]

text \<open>\<open>"%d" % i\<close> and \<open>str(i)\<close> for an integer \<open>i\<close>.\<close>

definition format_d :: "int \<Rightarrow> string" where
  "format_d i = (if i < 0 then CHR ''-'' # show_nat (nat (- i)) else show_nat (nat i))"

definition is_digit :: "char \<Rightarrow> bool" where
  "is_digit c \<longleftrightarrow> c \<in> set ''0123456789''"

definition digit_val :: "char \<Rightarrow> nat" where
  "digit_val c = of_char c - 48"

definition is_space :: "char \<Rightarrow> bool" where
  "is_space c \<longleftrightarrow> (of_char c :: nat) \<in> {9, 10, 11, 12, 13, 32}"

definition strip :: "string \<Rightarrow> string" where
  "strip s = rev (dropWhile is_space (rev (dropWhile is_space s)))"

text \<open>
  The digits of an integer literal: a digit, then digits each optionally preceded by a
  single underscore.
\<close>

fun valid_body :: "string \<Rightarrow> bool" where
  "valid_body [] = False"
| "valid_body [c] = is_digit c"
| "valid_body (c # d # r) =
     (is_digit c \<and> (if d = CHR ''_'' then valid_body r else valid_body (d # r)))"

definition body_val :: "string \<Rightarrow> nat" where
  "body_val s = foldl (\<lambda>a c. a * 10 + digit_val c) 0 (filter (\<lambda>c. c \<noteq> CHR ''_'') s)"

text \<open>
  \<open>int(s)\<close> in base ten on an ASCII string: surrounding whitespace (tab, line feed,
  vertical tab, form feed, carriage return, space) is dropped, one sign is allowed,
  anything else raises \<open>ValueError\<close>. (Digits and whitespace outside ASCII are outside
  this byte-string model.)
\<close>

definition py_int :: "string \<Rightarrow> py_error + int" where
  "py_int s =
     (let t = strip s;
          neg = (t \<noteq> [] \<and> hd t = CHR ''-'');
          body = (if t \<noteq> [] \<and> (hd t = CHR ''-'' \<or> hd t = CHR ''+'') then tl t else t)
      in if valid_body body
         then Inr (if neg then - int (body_val body) else int (body_val body))
         else Inl ValueError)"

text \<open>\<open>max(xs)\<close> on a non-empty list of integers.\<close>

definition py_max :: "int list \<Rightarrow> int" where
  "py_max xs = foldl max (hd xs) (tl xs)"

text \<open>\<open>a % b\<close> on integers: the sign follows the divisor, a zero divisor raises.\<close>

definition py_mod :: "int \<Rightarrow> int \<Rightarrow> py_error + int" where
  "py_mod a b = (if b = 0 then Inl ZeroDivisionError else Inr (a mod b))"


text \<open>
  \<open>os.path.join(a, b)\<close> on POSIX, and the three queries the setup makes of the file
  system.
\<close>

definition path_join :: "string \<Rightarrow> string \<Rightarrow> string" where
  "path_join a b =
     (if startswith b ''/'' then b
      else if a = [] \<or> endswith a ''/'' then a @ b
      else a @ ''/'' @ b)"

record os_view =
  isdir :: "string \<Rightarrow> bool"
  isfile :: "string \<Rightarrow> bool"
  listdir :: "string \<Rightarrow> string list"

section \<open>Trainer state\<close>

text \<open>
  The dictionary a checkpoint file holds, and that \<open>_update_state\<close> consumes: the keys
  \<open>"model"\<close>, \<open>"optimizer"\<close> and \<open>"epoch"\<close> may each be absent (\<open>None\<close>); every
  other key is kept in \<open>ck_other\<close>, in the order of the dictionary. The same type carries
  the state overrides a callback returns.

  An entry under another key is an assignment to the trainer attribute of that name: to
  one of the attributes the model has as fields, with a value of the field's type, or
  (\<open>Set_attr\<close>) to any other attribute.
\<close>

datatype ('o, 'x) attr_value =
  Optimizer_states "(string \<times> 'o) list"
| Attr 'x

datatype ('m, 'o, 'x) override =
  Set_save_path string
| Set_save_freq int
| Set_start_epoch int
| Set_module 'm
| Set_optimizers "(string \<times> 'o) list"
| Set_use_gpu bool
| Set_input_device string
| Set_output_device string
| Set_attr string "('o, 'x) attr_value"

record ('s, 'm, 'o, 'x) checkpoint =
  ck_model :: "'s option"
  ck_optimizer :: "(string \<times> 'o) list option"
  ck_epoch :: "int option"
  ck_other :: "('m, 'o, 'x) override list"

text \<open>
  \<open>save_checkpoint\<close> and \<open>load_checkpoint\<close> (\<open>delira.io\<close>) are not part of the
  trainers: a call of \<open>save_checkpoint\<close> is recorded with the arguments the trainer
  passes, and \<open>load_checkpoint\<close> is a parameter \<open>lc\<close> of the model that reads a path
  given everything written so far. Whatever the two functions do, a loaded checkpoint can
  depend on the trainer only through the recorded arguments. (Where a property depends on
  what \<open>load_checkpoint\<close> answers, \<open>lc\<close> is the function \<open>load_checkpoint\<close> defined
  further down.)
\<close>

record ('m, 'o, 'k) save_call =
  sc_file :: string
  sc_model :: 'm
  sc_optimizers :: "(string \<times> 'o) list"
  sc_kwargs :: "(string \<times> 'k) list"

datatype log_record =
  Info_attempting_to_load string
| Warning_previous_state_not_loaded
| Exception_logged py_error

record ('m, 'o, 'x, 'k) trainer =
  save_path :: string
  module :: 'm
  optimizers :: "(string \<times> 'o) list"
  start_epoch :: int
  save_freq :: int
  use_gpu :: bool
  input_device :: "string option"
  output_device :: "string option"
  attrs :: "(string \<times> ('o, 'x) attr_value) list"
  logged :: "log_record list"
  saved :: "('m, 'o, 'k) save_call list"

type_synonym ('m, 'o, 's, 'x, 'k) loader =
  "('m, 'o, 'k) save_call list \<Rightarrow> string \<Rightarrow> (string \<times> 'k) list
     \<Rightarrow> py_error + ('s, 'm, 'o, 'x) checkpoint"

text \<open>
  Modelled from the spec: \<open>AbstractNetworkTrainer._update_state\<close>, which both trainers
  call last with the dictionary they have taken their own keys out of, is not among the
  sources. Section 4.3: "any other keys in the bundle are passed through to a generic
  merge step for extensibility"; section 4.4: a callback "returns a mapping of
  state-field overrides", which "the trainer applies ... immediately". Every entry that is
  left is assigned to the trainer attribute of its key, in the order of the dictionary.
\<close>

fun setattr :: "('m, 'o, 'x) override \<Rightarrow> ('m, 'o, 'x, 'k) trainer \<Rightarrow> ('m, 'o, 'x, 'k) trainer" where
  "setattr (Set_save_path v) tr = tr\<lparr>save_path := v\<rparr>"
| "setattr (Set_save_freq v) tr = tr\<lparr>save_freq := v\<rparr>"
| "setattr (Set_start_epoch v) tr = tr\<lparr>start_epoch := v\<rparr>"
| "setattr (Set_module v) tr = tr\<lparr>module := v\<rparr>"
| "setattr (Set_optimizers v) tr = tr\<lparr>optimizers := v\<rparr>"
| "setattr (Set_use_gpu v) tr = tr\<lparr>use_gpu := v\<rparr>"
| "setattr (Set_input_device v) tr = tr\<lparr>input_device := Some v\<rparr>"
| "setattr (Set_output_device v) tr = tr\<lparr>output_device := Some v\<rparr>"
| "setattr (Set_attr key v) tr = tr\<lparr>attrs := AList.update key v (attrs tr)\<rparr>"

definition base_update_state ::
  "('m, 'o, 'x) override list \<Rightarrow> ('m, 'o, 'x, 'k) trainer \<Rightarrow> ('m, 'o, 'x, 'k) trainer outcome" where
  "base_update_state new_state tr = Done (fold setattr new_state tr)"

text \<open>
  What is left of the dictionary when \<open>_update_state\<close> of either trainer hands it on:
  \<open>"model"\<close> and \<open>"epoch"\<close> have been taken out if they were there, \<open>"optimizer"\<close> has
  been taken out unless it was empty.
\<close>

definition leftover :: "('s, 'm, 'o, 'x) checkpoint \<Rightarrow> ('m, 'o, 'x) override list" where
  "leftover new_state =
     (if ck_optimizer new_state = Some []
      then [Set_attr ''optimizer'' (Optimizer_states [])] else [])
     @ ck_other new_state"

text \<open>
  The loop \<open>for key in self.optimizers.keys(): ... optim_state[key]\<close>: a name missing
  from the loaded optimizer states raises \<open>KeyError\<close>, after the optimizers before it
  have taken their state.
\<close>

fun load_optimizers ::
  "string list \<Rightarrow> (string \<times> 'o) list \<Rightarrow> ('m, 'o, 'x, 'k) trainer \<Rightarrow> ('m, 'o, 'x, 'k) trainer outcome" where
  "load_optimizers [] optim_state tr = Done tr"
| "load_optimizers (key # keys) optim_state tr =
     (case map_of optim_state key of
        None \<Rightarrow> Raised KeyError tr
      | Some st \<Rightarrow>
          load_optimizers keys optim_state
            (tr\<lparr>optimizers := AList.update key st (optimizers tr)\<rparr>))"

section \<open>The PyTorch trainer\<close>

text \<open>
  A module is a network (its state dict and the device it lives on) or a
  \<open>torch.nn.DataParallel\<close> wrapper with its \<open>device_ids\<close> and \<open>output_device\<close>.
  Devices are written as the strings handed to \<open>torch.device\<close>.
\<close>

datatype 's torch_module =
  Network 's string
| DataParallel "'s torch_module" "int list" int

fun to :: "'s torch_module \<Rightarrow> string \<Rightarrow> 's torch_module" where
  "to (Network sd d) dev = Network sd dev"
| "to (DataParallel m ids out) dev = DataParallel (to m dev) ids out"

fun load_state_dict :: "'s \<Rightarrow> 's torch_module \<Rightarrow> 's torch_module" where
  "load_state_dict sd (Network old d) = Network sd d"
| "load_state_dict sd (DataParallel m ids out) = DataParallel (load_state_dict sd m) ids out"

subsection \<open>Saving, loading and applying a checkpoint\<close>

definition torch_save_state ::
  "string \<Rightarrow> int \<Rightarrow> (string \<times> 'k) list \<Rightarrow> ('m, 'o, 'x, 'k) trainer \<Rightarrow> ('m, 'o, 'x, 'k) trainer" where
  "torch_save_state file_name epoch kwargs tr =
     (let file_name =
            (if \<not> (endswith file_name ''.pth'' \<or> endswith file_name ''.pt'')
             then file_name @ ''.pt'' else file_name)
      in tr\<lparr>saved := saved tr @
              [\<lparr>sc_file = file_name, sc_model = module tr,
                sc_optimizers = optimizers tr, sc_kwargs = kwargs\<rparr>]\<rparr>)"

definition torch_load_state ::
  "('m, 'o, 's, 'x, 'k) loader \<Rightarrow> string \<Rightarrow> (string \<times> 'k) list \<Rightarrow> ('m, 'o, 'k) save_call list
     \<Rightarrow> py_error + ('s, 'm, 'o, 'x) checkpoint" where
  "torch_load_state lc file_name kwargs disk =
     (let file_name =
            (if \<not> (endswith file_name ''.pth'' \<or> endswith file_name ''.pt'')
             then file_name @ ''.pt'' else file_name)
      in lc disk file_name kwargs)"

text \<open>\<open>_update_state(new_state)\<close>.\<close>

definition torch_private_update_state ::
  "('s, 's torch_module, 'o, 'x) checkpoint \<Rightarrow> ('s torch_module, 'o, 'x, 'k) trainer
     \<Rightarrow> ('s torch_module, 'o, 'x, 'k) trainer outcome" where
  "torch_private_update_state new_state tr =
     (let tr1 = (case ck_model new_state of
                   Some sd \<Rightarrow> tr\<lparr>module := load_state_dict sd (module tr)\<rparr>
                 | None \<Rightarrow> tr);
          popped = (ck_optimizer new_state \<noteq> None \<and> ck_optimizer new_state \<noteq> Some [])
      in case (if popped
               then load_optimizers (map fst (optimizers tr1)) (the (ck_optimizer new_state)) tr1
               else Done tr1) of
           Raised e tr2 \<Rightarrow> Raised e tr2
         | Done tr2 \<Rightarrow>
             (let tr3 = (case ck_epoch new_state of
                           Some e \<Rightarrow> tr2\<lparr>start_epoch := e\<rparr>
                         | None \<Rightarrow> tr2)
              in base_update_state (leftover new_state) tr3))"

text \<open>\<open>update_state(file_name)\<close>.\<close>

definition torch_update_state ::
  "('s torch_module, 'o, 's, 'x, 'k) loader \<Rightarrow> string \<Rightarrow> (string \<times> 'k) list
     \<Rightarrow> ('s torch_module, 'o, 'x, 'k) trainer \<Rightarrow> ('s torch_module, 'o, 'x, 'k) trainer outcome" where
  "torch_update_state lc file_name kwargs tr =
     (case torch_load_state lc file_name kwargs (saved tr) of
        Inl e \<Rightarrow> Raised e tr
      | Inr new_state \<Rightarrow> torch_private_update_state new_state tr)"

subsection \<open>Setup: resuming from the latest checkpoint\<close>

text \<open>
  The list comprehension \<open>[int(x.rsplit("_", 1)[-1].rsplit(".", 1)[0]) for x in files]\<close>
  stops at the first name that does not parse.
\<close>

definition epoch_of_name :: "string \<Rightarrow> py_error + int" where
  "epoch_of_name x = py_int (hd (rsplit1 (last (rsplit1 x (CHR ''_''))) (CHR ''.'')))"

fun epochs_of_names :: "string list \<Rightarrow> py_error + int list" where
  "epochs_of_names [] = Inr []"
| "epochs_of_names (x # xs) =
     (case epoch_of_name x of
        Inl e \<Rightarrow> Inl e
      | Inr n \<Rightarrow> (case epochs_of_names xs of Inl e \<Rightarrow> Inl e | Inr ns \<Rightarrow> Inr (n # ns)))"

definition torch_files :: "os_view \<Rightarrow> string \<Rightarrow> string list" where
  "torch_files os sp =
     filter (\<lambda>x. isfile os (path_join sp x) \<and> startswith x ''checkpoint''
                 \<and> \<not> (endswith x ''_best.pth'' \<or> endswith x ''_best.pt''))
       (listdir os sp)"

text \<open>
  The path handed to \<open>update_state\<close>: \<open>None\<close> when the save path is no directory or
  holds no checkpoint file, an exception when a name does not parse.
\<close>

definition torch_latest_state_path :: "os_view \<Rightarrow> string \<Rightarrow> py_error + string option" where
  "torch_latest_state_path os sp =
     (if isdir os sp then
        (let files = torch_files os sp in
         if files \<noteq> [] then
           (case epochs_of_names files of
              Inl e \<Rightarrow> Inl e
            | Inr epochs \<Rightarrow>
                (let latest_epoch = py_max epochs;
                     latest_state_path =
                       path_join sp (''checkpoint_epoch_'' @ format_d latest_epoch @ ''.pth'')
                 in Inr (Some (if \<not> isfile os latest_state_path
                               then butlast latest_state_path else latest_state_path))))
         else Inr None)
      else Inr None)"

text \<open>
  The \<open>try\<close> block around \<open>update_state(latest_state_path)\<close>: a \<open>KeyError\<close> is
  answered with a warning in the log, any other exception leaves the setup.
\<close>

definition torch_resume_from ::
  "('s torch_module, 'o, 's, 'x, 'k) loader \<Rightarrow> string
     \<Rightarrow> ('s torch_module, 'o, 'x, 'k) trainer \<Rightarrow> ('s torch_module, 'o, 'x, 'k) trainer outcome" where
  "torch_resume_from lc latest_state_path tr =
     (case torch_update_state lc latest_state_path []
             (tr\<lparr>logged := logged tr @ [Info_attempting_to_load latest_state_path]\<rparr>) of
        Done tr1 \<Rightarrow> Done tr1
      | Raised e tr1 \<Rightarrow>
          if e = KeyError
          then Done (tr1\<lparr>logged := logged tr1 @ [Warning_previous_state_not_loaded]\<rparr>)
          else Raised e tr1)"

definition torch_setup_resume ::
  "('s torch_module, 'o, 's, 'x, 'k) loader \<Rightarrow> os_view
     \<Rightarrow> ('s torch_module, 'o, 'x, 'k) trainer \<Rightarrow> ('s torch_module, 'o, 'x, 'k) trainer outcome" where
  "torch_setup_resume lc os tr =
     (case torch_latest_state_path os (save_path tr) of
        Inl e \<Rightarrow> Raised e tr
      | Inr None \<Rightarrow> Done tr
      | Inr (Some latest_state_path) \<Rightarrow> torch_resume_from lc latest_state_path tr)"

subsection \<open>Setup: device placement\<close>

text \<open>
  \<open>cuda_is_available\<close> is the answer of \<open>torch.cuda.is_available()\<close>, \<open>device_count\<close>
  that of \<open>torch.cuda.device_count()\<close>.
\<close>

definition torch_setup_devices ::
  "bool \<Rightarrow> int \<Rightarrow> int list \<Rightarrow> ('s torch_module, 'o, 'x, 'k) trainer
     \<Rightarrow> ('s torch_module, 'o, 'x, 'k) trainer" where
  "torch_setup_devices cuda_is_available device_count gpu_ids tr =
     (if gpu_ids \<noteq> [] \<and> cuda_is_available then
        (let tr = tr\<lparr>use_gpu := True\<rparr> in
         if length gpu_ids > 1 \<and> device_count > 1 then
           tr\<lparr>input_device := Some (''cuda:'' @ format_d (gpu_ids ! 0)),
              module := DataParallel (to (module tr) (''cuda:'' @ format_d (gpu_ids ! 0)))
                          gpu_ids (gpu_ids ! 1),
              output_device := Some (''cuda:'' @ format_d (gpu_ids ! 1))\<rparr>
         else
           tr\<lparr>input_device := Some (''cuda:'' @ format_d (gpu_ids ! 0)),
              module := to (module tr) (''cuda:'' @ format_d (gpu_ids ! 0)),
              output_device := Some (''cuda:'' @ format_d (gpu_ids ! 0))\<rparr>)
      else
        tr\<lparr>use_gpu := False, input_device := Some ''cpu'', output_device := Some ''cpu'',
           module := to (module tr) ''cpu''\<rparr>)"

subsection \<open>Checkpoints written during training\<close>

text \<open>
  A callback has the two hooks \<open>at_epoch_begin\<close> and \<open>at_epoch_end\<close>; each receives the
  trainer, the validation metrics, the score key and the epoch, and returns a dictionary
  that \<open>_update_state\<close> applies at once.
\<close>

record ('t, 'v, 'c) callback =
  at_epoch_begin :: "'t \<Rightarrow> 'v \<Rightarrow> string \<Rightarrow> int \<Rightarrow> 'c"
  at_epoch_end :: "'t \<Rightarrow> 'v \<Rightarrow> string \<Rightarrow> int \<Rightarrow> 'c"

fun torch_apply_callbacks ::
  "(('s torch_module, 'o, 'x, 'k) trainer \<Rightarrow> ('s, 's torch_module, 'o, 'x) checkpoint) list
     \<Rightarrow> ('s torch_module, 'o, 'x, 'k) trainer \<Rightarrow> ('s torch_module, 'o, 'x, 'k) trainer outcome" where
  "torch_apply_callbacks [] tr = Done tr"
| "torch_apply_callbacks (hook # hooks) tr =
     (case torch_private_update_state (hook tr) tr of
        Raised e tr1 \<Rightarrow> Raised e tr1
      | Done tr1 \<Rightarrow> torch_apply_callbacks hooks tr1)"

definition torch_at_training_begin ::
  "('m, 'o, 'x, 'k) trainer \<Rightarrow> ('m, 'o, 'x, 'k) trainer" where
  "torch_at_training_begin tr =
     torch_save_state (path_join (save_path tr) ''checkpoint_epoch_0'') 0 [] tr"

definition torch_at_epoch_begin ::
  "(('s torch_module, 'o, 'x, 'k) trainer, 'v, ('s, 's torch_module, 'o, 'x) checkpoint) callback
       list
     \<Rightarrow> 'v \<Rightarrow> string \<Rightarrow> int \<Rightarrow> ('s torch_module, 'o, 'x, 'k) trainer
     \<Rightarrow> ('s torch_module, 'o, 'x, 'k) trainer outcome" where
  "torch_at_epoch_begin callbacks metrics_val val_score_key epoch tr =
     torch_apply_callbacks
       (map (\<lambda>cb self. at_epoch_begin cb self metrics_val val_score_key epoch) callbacks) tr"

definition torch_at_epoch_end ::
  "(('s torch_module, 'o, 'x, 'k) trainer, 'v, ('s, 's torch_module, 'o, 'x) checkpoint) callback
       list
     \<Rightarrow> 'v \<Rightarrow> string \<Rightarrow> int \<Rightarrow> bool \<Rightarrow> ('s torch_module, 'o, 'x, 'k) trainer
     \<Rightarrow> ('s torch_module, 'o, 'x, 'k) trainer outcome" where
  "torch_at_epoch_end callbacks metrics_val val_score_key epoch is_best tr =
     (case torch_apply_callbacks
             (map (\<lambda>cb self. at_epoch_end cb self metrics_val val_score_key epoch) callbacks) tr of
        Raised e tr1 \<Rightarrow> Raised e tr1
      | Done tr1 \<Rightarrow>
          (case py_mod epoch (save_freq tr1) of
             Inl e \<Rightarrow> Raised e tr1
           | Inr r \<Rightarrow>
               (let tr2 = (if r = 0
                           then torch_save_state
                                  (path_join (save_path tr1)
                                     (''checkpoint_epoch_'' @ format_d epoch @ ''.pt''))
                                  epoch [] tr1
                           else tr1);
                    tr3 = (if is_best
                           then torch_save_state
                                  (path_join (save_path tr2) ''checkpoint_best.pt'') epoch [] tr2
                           else tr2)
                in Done tr3)))"

text \<open>
  Modelled from the spec: the epoch loop of the abstract trainer is not among the
  sources. Section 4.1: setup "writes an initial checkpoint at epoch 0"; then "for each
  epoch in \<open>[start_epoch, start_epoch + num_epochs)\<close>": the callbacks' \<open>at_epoch_begin\<close>,
  one training pass and the validation (here \<open>fit\<close>, which answers the new module and
  optimizers, the validation metrics and \<open>is_best\<close>), then \<open>_at_epoch_end\<close>.
\<close>

fun torch_train_epochs ::
  "(('s torch_module, 'o, 'x, 'k) trainer, 'v, ('s, 's torch_module, 'o, 'x) checkpoint) callback
       list
     \<Rightarrow> (int \<Rightarrow> 's torch_module \<Rightarrow> (string \<times> 'o) list
           \<Rightarrow> 's torch_module \<times> (string \<times> 'o) list \<times> 'v \<times> bool)
     \<Rightarrow> string \<Rightarrow> int list \<Rightarrow> 'v \<Rightarrow> ('s torch_module, 'o, 'x, 'k) trainer
     \<Rightarrow> ('s torch_module, 'o, 'x, 'k) trainer outcome" where
  "torch_train_epochs callbacks fit val_score_key [] metrics_val tr = Done tr"
| "torch_train_epochs callbacks fit val_score_key (epoch # epochs) metrics_val tr =
     (case torch_at_epoch_begin callbacks metrics_val val_score_key epoch tr of
        Raised e tr1 \<Rightarrow> Raised e tr1
      | Done tr1 \<Rightarrow>
          (case fit epoch (module tr1) (optimizers tr1) of
             (m, opts, metrics_val', is_best) \<Rightarrow>
               (case torch_at_epoch_end callbacks metrics_val' val_score_key epoch is_best
                       (tr1\<lparr>module := m, optimizers := opts\<rparr>) of
                  Raised e tr2 \<Rightarrow> Raised e tr2
                | Done tr2 \<Rightarrow>
                    torch_train_epochs callbacks fit val_score_key epochs metrics_val' tr2)))"

definition torch_train ::
  "(('s torch_module, 'o, 'x, 'k) trainer, 'v, ('s, 's torch_module, 'o, 'x) checkpoint) callback
       list
     \<Rightarrow> (int \<Rightarrow> 's torch_module \<Rightarrow> (string \<times> 'o) list
           \<Rightarrow> 's torch_module \<times> (string \<times> 'o) list \<times> 'v \<times> bool)
     \<Rightarrow> string \<Rightarrow> int \<Rightarrow> 'v \<Rightarrow> ('s torch_module, 'o, 'x, 'k) trainer
     \<Rightarrow> ('s torch_module, 'o, 'x, 'k) trainer outcome" where
  "torch_train callbacks fit val_score_key num_epochs metrics_val tr =
     (let tr0 = torch_at_training_begin tr
      in torch_train_epochs callbacks fit val_score_key
           [start_epoch tr0 .. start_epoch tr0 + num_epochs - 1] metrics_val tr0)"

section \<open>The Chainer trainer\<close>

text \<open>
  A module is a link (its parameters and device) or a \<open>DataParallelChainerNetwork\<close>
  over a list of devices. Devices are written as the specifier strings handed to
  \<open>chainer.get_device\<close>.
\<close>

datatype 's chainer_module =
  Link 's string
| DataParallelChainerNetwork "'s chainer_module" "string list"

fun to_device :: "'s chainer_module \<Rightarrow> string \<Rightarrow> 's chainer_module" where
  "to_device (Link ps d) dev = Link ps dev"
| "to_device (DataParallelChainerNetwork m devs) dev =
     DataParallelChainerNetwork (to_device m dev) devs"

subsection \<open>Saving, loading and applying a checkpoint\<close>

definition chainer_save_state ::
  "string \<Rightarrow> int \<Rightarrow> (string \<times> 'k) list \<Rightarrow> ('m, 'o, 'x, 'k) trainer \<Rightarrow> ('m, 'o, 'x, 'k) trainer" where
  "chainer_save_state file_name epoch kwargs tr =
     (let file_name =
            (if \<not> endswith file_name ''.chain'' then file_name @ ''.chain'' else file_name)
      in tr\<lparr>saved := saved tr @
              [\<lparr>sc_file = file_name, sc_model = module tr,
                sc_optimizers = optimizers tr, sc_kwargs = kwargs\<rparr>]\<rparr>)"

definition chainer_load_state ::
  "('m, 'o, 's, 'x, 'k) loader \<Rightarrow> string \<Rightarrow> (string \<times> 'k) list \<Rightarrow> ('m, 'o, 'k) save_call list
     \<Rightarrow> py_error + ('s, 'm, 'o, 'x) checkpoint" where
  "chainer_load_state lc file_name kwargs disk =
     (let file_name =
            (if \<not> endswith file_name ''.chain'' then file_name @ ''.chain'' else file_name)
      in lc disk file_name kwargs)"

definition chainer_private_update_state ::
  "('m, 'm, 'o, 'x) checkpoint \<Rightarrow> ('m, 'o, 'x, 'k) trainer \<Rightarrow> ('m, 'o, 'x, 'k) trainer outcome" where
  "chainer_private_update_state new_state tr =
     (let tr1 = (case ck_model new_state of
                   Some m \<Rightarrow> tr\<lparr>module := m\<rparr>
                 | None \<Rightarrow> tr);
          popped = (ck_optimizer new_state \<noteq> None \<and> ck_optimizer new_state \<noteq> Some [])
      in case (if popped
               then load_optimizers (map fst (optimizers tr1)) (the (ck_optimizer new_state)) tr1
               else Done tr1) of
           Raised e tr2 \<Rightarrow> Raised e tr2
         | Done tr2 \<Rightarrow>
             (let tr3 = (case ck_epoch new_state of
                           Some e \<Rightarrow> tr2\<lparr>start_epoch := e\<rparr>
                         | None \<Rightarrow> tr2)
              in base_update_state (leftover new_state) tr3))"

definition chainer_update_state ::
  "('m, 'o, 'm, 'x, 'k) loader \<Rightarrow> string \<Rightarrow> (string \<times> 'k) list
     \<Rightarrow> ('m, 'o, 'x, 'k) trainer \<Rightarrow> ('m, 'o, 'x, 'k) trainer outcome" where
  "chainer_update_state lc file_name kwargs tr =
     (case chainer_load_state lc file_name kwargs (saved tr) of
        Inl e \<Rightarrow> Raised e tr
      | Inr new_state \<Rightarrow> chainer_private_update_state new_state tr)"

subsection \<open>Setup: resuming from the latest checkpoint\<close>

definition chainer_files :: "os_view \<Rightarrow> string \<Rightarrow> string list" where
  "chainer_files os sp =
     filter (\<lambda>x. isfile os (path_join sp x) \<and> startswith x ''checkpoint''
                 \<and> \<not> endswith x ''_best.chain'')
       (listdir os sp)"

definition chainer_latest_state_path :: "os_view \<Rightarrow> string \<Rightarrow> py_error + string option" where
  "chainer_latest_state_path os sp =
     (if isdir os sp then
        (let files = chainer_files os sp in
         if files \<noteq> [] then
           (case epochs_of_names files of
              Inl e \<Rightarrow> Inl e
            | Inr epochs \<Rightarrow>
                (let latest_epoch = py_max epochs;
                     latest_state_path =
                       path_join sp (''checkpoint_epoch_'' @ format_d latest_epoch @ ''.chain'')
                 in Inr (Some (if \<not> isfile os latest_state_path
                               then butlast latest_state_path else latest_state_path))))
         else Inr None)
      else Inr None)"

definition chainer_resume_from ::
  "('m, 'o, 'm, 'x, 'k) loader \<Rightarrow> string
     \<Rightarrow> ('m, 'o, 'x, 'k) trainer \<Rightarrow> ('m, 'o, 'x, 'k) trainer outcome" where
  "chainer_resume_from lc latest_state_path tr =
     (case chainer_update_state lc latest_state_path []
             (tr\<lparr>logged := logged tr @ [Info_attempting_to_load latest_state_path]\<rparr>) of
        Done tr1 \<Rightarrow> Done tr1
      | Raised e tr1 \<Rightarrow>
          if e = KeyError
          then Done (tr1\<lparr>logged := logged tr1 @ [Warning_previous_state_not_loaded]\<rparr>)
          else Raised e tr1)"

definition chainer_setup_resume ::
  "('m, 'o, 'm, 'x, 'k) loader \<Rightarrow> os_view
     \<Rightarrow> ('m, 'o, 'x, 'k) trainer \<Rightarrow> ('m, 'o, 'x, 'k) trainer outcome" where
  "chainer_setup_resume lc os tr =
     (case chainer_latest_state_path os (save_path tr) of
        Inl e \<Rightarrow> Raised e tr
      | Inr None \<Rightarrow> Done tr
      | Inr (Some latest_state_path) \<Rightarrow> chainer_resume_from lc latest_state_path tr)"

subsection \<open>Setup: device placement\<close>

text \<open>
  \<open>chainer_cpu\<close> is the four assignments that each of the CPU branches makes.
  \<open>chainerx_is_available\<close> is the answer of \<open>chainer.chainerx.is_available()\<close>;
  \<open>probe\<close> is the outcome of \<open>chainer.cuda.check_cuda_available()\<close>, a truth value or an
  exception; \<open>dp_optimizers\<close> is the outcome of the call
  \<open>optim_fn(DataParallelChainerOptimizer, {**optimizer_params, "optim_cls": optimizer_cls})\<close>
  in the branch for several ids, the optimizers it builds or the exception it raises. Of
  an exception inside the \<open>try\<close> block the handler catches \<open>RuntimeError\<close>, logs it and
  makes the CPU assignments on the trainer as the block has left it; any other exception
  leaves the setup.
\<close>

definition chainer_cpu ::
  "string \<Rightarrow> ('s chainer_module, 'o, 'x, 'k) trainer \<Rightarrow> ('s chainer_module, 'o, 'x, 'k) trainer" where
  "chainer_cpu cpu_device_prefix tr =
     tr\<lparr>use_gpu := False, input_device := Some cpu_device_prefix,
        output_device := Some cpu_device_prefix,
        module := to_device (module tr) cpu_device_prefix\<rparr>"

definition chainer_setup_devices ::
  "bool \<Rightarrow> py_error + bool \<Rightarrow> py_error + (string \<times> 'o) list \<Rightarrow> int list
     \<Rightarrow> ('s chainer_module, 'o, 'x, 'k) trainer \<Rightarrow> ('s chainer_module, 'o, 'x, 'k) trainer outcome" where
  "chainer_setup_devices chainerx_is_available probe dp_optimizers gpu_ids tr =
     (let gpu_device_prefix = (if chainerx_is_available then ''cuda:'' else ''@cupy:'');
          cpu_device_prefix = (if chainerx_is_available then ''native'' else ''@numpy'');
          handler = (\<lambda>e tr1.
            if e = RuntimeError
            then Done (chainer_cpu cpu_device_prefix
                         (tr1\<lparr>logged := logged tr1 @ [Exception_logged e]\<rparr>))
            else Raised e tr1)
      in if gpu_ids \<noteq> [] then
           (case probe of
              Inr available \<Rightarrow>
                if available then
                  (let tr = tr\<lparr>use_gpu := True\<rparr> in
                   if length gpu_ids > 1 then
                     (let tr = tr\<lparr>input_device := Some (gpu_device_prefix @ format_d (gpu_ids ! 0)),
                                   module := DataParallelChainerNetwork
                                               (to_device (module tr) ''@numpy'')
                                               (map (\<lambda>id. gpu_device_prefix @ format_d id)
                                                  gpu_ids)\<rparr>
                      in case dp_optimizers of
                           Inr opts \<Rightarrow>
                             Done (tr\<lparr>optimizers := opts,
                                      output_device :=
                                        Some (gpu_device_prefix @ format_d (gpu_ids ! 0))\<rparr>)
                         | Inl e \<Rightarrow> handler e tr)
                   else
                     Done (tr\<lparr>input_device := Some cpu_device_prefix,
                              module := to_device (module tr) cpu_device_prefix,
                              output_device := Some cpu_device_prefix\<rparr>))
                else Done (chainer_cpu cpu_device_prefix tr)
            | Inl e \<Rightarrow> handler e tr)
         else Done (chainer_cpu cpu_device_prefix tr))"

section \<open>Constructor: the loss configuration\<close>

text \<open>
  \<open>PyTorchNetworkTrainer.__init__\<close> chooses between the current argument \<open>losses\<close>
  and the deprecated \<open>criterions\<close> (both default to \<open>None\<close>) before anything else
  runs. The result is the value bound to \<open>crits\<close>, which becomes the trainer's losses,
  and the warnings issued on the way. The \<open>elif\<close> of the first branch has no \<open>else\<close>:
  were it to fall through, \<open>crits\<close> would be unbound at its use.
\<close>

datatype warning =
  DeprecationWarning_criterions_deprecated
| RuntimeWarning_criterions_and_losses_specified

definition init_crits :: "'l option \<Rightarrow> 'l option \<Rightarrow> py_error + ('l option \<times> warning list)" where
  "init_crits losses criterions =
     (if (criterions \<noteq> None) \<noteq> (losses \<noteq> None) then
        (if losses \<noteq> None then Inr (losses, [])
         else if criterions \<noteq> None
           then Inr (criterions, [DeprecationWarning_criterions_deprecated])
         else Inl UnboundLocalError)
      else Inr (losses, [RuntimeWarning_criterions_and_losses_specified]))"

section \<open>Reading a checkpoint file\<close>

text \<open>
  Modelled from the spec: \<open>load_checkpoint\<close> (\<open>delira.io\<close>), which \<open>load_state\<close> of
  both trainers calls, is not among the sources. Section 4.3: "\<open>load(path) -> bundle\<close>:
  returns the three-field bundle without mutating trainer state", and "if loading raises a
  missing-key error, log a warning and proceed"; section 6: the artifact is
  \<open>{"model", "optimizer" (possibly empty), "epoch"}\<close>; section 7: "checkpoint found but
  missing expected keys". \<open>files\<close> is what the disk holds, a dictionary per path:
  reading a path that holds none fails, reading a dictionary that lacks one of the three
  keys raises \<open>KeyError\<close>, and a dictionary with the three keys is returned.
\<close>

definition load_checkpoint ::
  "(string \<rightharpoonup> ('s, 'm, 'o, 'x) checkpoint) \<Rightarrow> ('m, 'o, 's, 'x, 'k) loader" where
  "load_checkpoint files disk file_name kwargs =
     (case files file_name of
        None \<Rightarrow> Inl OSError
      | Some d \<Rightarrow>
          if ck_model d = None \<or> ck_optimizer d = None \<or> ck_epoch d = None
          then Inl KeyError else Inr d)"

section \<open>Names of the periodic checkpoint files\<close>

text \<open>
  \<open>x\<close> is a file of the save path \<open>sp\<close> that carries the name the trainer gives the
  periodic checkpoint of epoch \<open>n\<close>: \<open>"checkpoint_epoch_%d.pt" % n\<close>, also with the
  extension \<open>.pth\<close> that the resume looks for first, for PyTorch, and
  \<open>"checkpoint_epoch_%d.chain" % n\<close> for Chainer.
\<close>

abbreviation torch_epoch_file :: "os_view \<Rightarrow> string \<Rightarrow> int \<Rightarrow> string \<Rightarrow> bool" where
  "torch_epoch_file os sp n x \<equiv>
     isfile os (path_join sp x)
     \<and> (x = ''checkpoint_epoch_'' @ format_d n @ ''.pt''
          \<or> x = ''checkpoint_epoch_'' @ format_d n @ ''.pth'')"

abbreviation chainer_epoch_file :: "os_view \<Rightarrow> string \<Rightarrow> int \<Rightarrow> string \<Rightarrow> bool" where
  "chainer_epoch_file os sp n x \<equiv>
     isfile os (path_join sp x) \<and> x = ''checkpoint_epoch_'' @ format_d n @ ''.chain''"

section \<open>Example values\<close>

text \<open>
  Concrete inputs for the examples below: trainers as the constructor leaves them before
  \<open>_setup\<close> resumes and places the module (one optimizer named \<open>default\<close>, start epoch
  1, save path \<open>ckpts\<close>), a file system whose directory \<open>ckpts\<close> holds the given
  files, and a \<open>load_checkpoint\<close> that reads the given files and fails on any other
  path.
\<close>

definition example_trainer :: "'m \<Rightarrow> ('m, nat, nat, nat) trainer" where
  "example_trainer m =
     \<lparr>save_path = ''ckpts'', module = m, optimizers = [(''default'', 0)],
      start_epoch = 1, save_freq = 3, use_gpu = False, input_device = None,
      output_device = None, attrs = [], logged = [], saved = []\<rparr>"

definition example_os :: "string list \<Rightarrow> os_view" where
  "example_os names =
     \<lparr>isdir = (\<lambda>p. p = ''ckpts''),
      isfile = (\<lambda>p. p \<in> set (map (path_join ''ckpts'') names)),
      listdir = (\<lambda>p. if p = ''ckpts'' then names else [])\<rparr>"

definition example_loader ::
  "(string \<times> ('s, 'm, nat, nat) checkpoint) list \<Rightarrow> ('m, nat, 's, nat, nat) loader" where
  "example_loader files disk file_name kwargs =
     (case map_of files file_name of None \<Rightarrow> Inl OSError | Some ck \<Rightarrow> Inr ck)"

section \<open>Properties of the constructor\<close>

text \<open>
  C9. When both \<open>criterions\<close> and \<open>losses\<close> are supplied, the value of \<open>losses\<close> is
  used, the runtime warning is issued and nothing is raised; when only \<open>losses\<close> is
  supplied it is used (without a warning); when only \<open>criterions\<close> is supplied it is used
  and the deprecation warning is issued.
\<close>

theorem init_crits_precedence:
  "init_crits (Some l) (Some c) = Inr (Some l, [RuntimeWarning_criterions_and_losses_specified])
   \<and> init_crits (Some l) None = Inr (Some l, [])
   \<and> init_crits None (Some c) = Inr (Some c, [DeprecationWarning_criterions_deprecated])"
  by (simp add: init_crits_def)

text \<open>
  C10. When neither \<open>losses\<close> nor \<open>criterions\<close> is supplied, the constructor still
  issues the runtime warning that both have been specified, and goes on with losses
  \<open>None\<close>.
\<close>

theorem init_crits_neither:
  "init_crits None None = Inr (None, [RuntimeWarning_criterions_and_losses_specified])"
  by (simp add: init_crits_def)

section \<open>Properties of the checkpoint round trip\<close>

lemma torch_save_state_ignores_epoch:
  "torch_save_state file_name epoch kwargs tr = torch_save_state file_name epoch' kwargs tr"
  by (simp add: torch_save_state_def)

text \<open>
  C1 (fails on the code). \<open>save_state(path, E)\<close> followed by \<open>load_state(path)\<close> should
  yield a checkpoint whose epoch is \<open>E\<close>. \<open>save_state\<close> never hands its \<open>epoch\<close>
  argument to \<open>save_checkpoint\<close>, so what is written for epoch 1 and for epoch 2 is the
  same, and no \<open>load_checkpoint\<close> can return the epoch that was given for every \<open>E\<close>.
\<close>

theorem save_load_epoch_roundtrip_fails:
  "\<not> (\<forall>E. case torch_load_state lc path kwargs (saved (torch_save_state path E [] tr)) of
               Inl e \<Rightarrow> False
             | Inr new_state \<Rightarrow> ck_epoch new_state = Some E)"
proof
  assume roundtrip:
    "\<forall>E. case torch_load_state lc path kwargs (saved (torch_save_state path E [] tr)) of
            Inl e \<Rightarrow> False
          | Inr new_state \<Rightarrow> ck_epoch new_state = Some E"
  have same: "torch_save_state path 1 [] tr = torch_save_state path 2 [] tr"
    by (rule torch_save_state_ignores_epoch)
  from roundtrip [rule_format, of 1] roundtrip [rule_format, of 2] same show False
    by (auto split: sum.splits)
qed

section \<open>Properties of the device placement\<close>

text \<open>
  C4. With an empty list of accelerator ids, or a probe that reports no accelerator
  (for Chainer also a probe that raises its \<open>RuntimeError\<close>), the setup sets
  \<open>use_gpu\<close> to false, resolves both devices to the CPU, moves the module there without
  wrapping it, and raises nothing.
\<close>

theorem device_fallback:
  "(gpu_ids = [] \<or> \<not> cuda_is_available \<longrightarrow>
      torch_setup_devices cuda_is_available device_count gpu_ids tr =
        tr\<lparr>use_gpu := False, input_device := Some ''cpu'', output_device := Some ''cpu'',
           module := to (module tr) ''cpu''\<rparr>)
   \<and> (gpu_ids = [] \<or> probe = Inr False \<or> probe = Inl RuntimeError \<longrightarrow>
      (\<exists>ctr'. chainer_setup_devices chainerx_is_available probe dp_optimizers gpu_ids ctr
                 = Done ctr'
         \<and> \<not> use_gpu ctr'
         \<and> input_device ctr' = Some (if chainerx_is_available then ''native'' else ''@numpy'')
         \<and> output_device ctr' = Some (if chainerx_is_available then ''native'' else ''@numpy'')
         \<and> module ctr' =
             to_device (module ctr) (if chainerx_is_available then ''native'' else ''@numpy'')))"
  by (auto simp: torch_setup_devices_def chainer_setup_devices_def chainer_cpu_def Let_def)

text \<open>
  The theorem at work: two requested ids on a host without CUDA, for PyTorch, and with a
  probe that raises \<open>RuntimeError\<close>, for Chainer.
\<close>

theorem device_fallback_witness:
  "torch_setup_devices False 0 [0, 1] (example_trainer (Network (0::nat) ''cuda:0'')) =
     (example_trainer (Network 0 ''cuda:0''))
       \<lparr>use_gpu := False, input_device := Some ''cpu'', output_device := Some ''cpu'',
         module := Network 0 ''cpu''\<rparr>
   \<and> (\<exists>ctr'. chainer_setup_devices False (Inl RuntimeError) (Inr []) [0, 1]
                (example_trainer (Link (0::nat) ''@cupy:0'')) = Done ctr'
         \<and> \<not> use_gpu ctr' \<and> input_device ctr' = Some ''@numpy''
         \<and> output_device ctr' = Some ''@numpy'' \<and> module ctr' = Link 0 ''@numpy'')"
  using device_fallback [where gpu_ids = "[0, 1]" and cuda_is_available = False
      and device_count = 0 and tr = "example_trainer (Network (0::nat) ''cuda:0'')"
      and probe = "Inl RuntimeError" and chainerx_is_available = False
      and dp_optimizers = "Inr []" and ctr = "example_trainer (Link (0::nat) ''@cupy:0'')"]
  by (simp add: example_trainer_def)

lemma torch_single_accelerator:
  "torch_setup_devices True device_count [g] tr =
     tr\<lparr>use_gpu := True, input_device := Some (''cuda:'' @ format_d g),
        module := to (module tr) (''cuda:'' @ format_d g),
        output_device := Some (''cuda:'' @ format_d g)\<rparr>"
  by (simp add: torch_setup_devices_def Let_def)

text \<open>
  C5 (fails on the code for Chainer). With exactly one requested id and a successful
  probe the module should be placed on that accelerator. The PyTorch setup does so
  (the lemma above); the Chainer setup sets \<open>use_gpu\<close> and then resolves both
  devices to the CPU prefix and moves the module to the CPU, whatever the id.
\<close>

theorem chainer_single_accelerator_on_cpu:
  "chainer_setup_devices chainerx_is_available (Inr True) dp_optimizers [g] tr =
     Done (tr\<lparr>use_gpu := True,
             input_device := Some (if chainerx_is_available then ''native'' else ''@numpy''),
             module := to_device (module tr)
                         (if chainerx_is_available then ''native'' else ''@numpy''),
             output_device := Some (if chainerx_is_available then ''native'' else ''@numpy'')\<rparr>)"
  by (simp add: chainer_setup_devices_def Let_def)

text \<open>
  C6 (amended). In the PyTorch trainer, with two or more requested ids, a successful
  probe and more than one device counted on the host, the input device is the first id,
  the module is wrapped in \<open>DataParallel\<close> over all ids and the output device is the
  second id. When the host counts at most one device, the module goes unwrapped to the
  first id, which is both devices.
\<close>

theorem multi_accelerator_placement:
  "(2 \<le> length gpu_ids \<and> 1 < device_count \<longrightarrow>
      torch_setup_devices True device_count gpu_ids tr =
        tr\<lparr>use_gpu := True, input_device := Some (''cuda:'' @ format_d (gpu_ids ! 0)),
           module := DataParallel (to (module tr) (''cuda:'' @ format_d (gpu_ids ! 0)))
                       gpu_ids (gpu_ids ! 1),
           output_device := Some (''cuda:'' @ format_d (gpu_ids ! 1))\<rparr>)
   \<and> (2 \<le> length gpu_ids \<and> device_count \<le> 1 \<longrightarrow>
      torch_setup_devices True device_count gpu_ids tr =
        tr\<lparr>use_gpu := True, input_device := Some (''cuda:'' @ format_d (gpu_ids ! 0)),
           module := to (module tr) (''cuda:'' @ format_d (gpu_ids ! 0)),
           output_device := Some (''cuda:'' @ format_d (gpu_ids ! 0))\<rparr>)"
  by (auto simp: torch_setup_devices_def Let_def)

text \<open>
  The theorem at work: the ids 0 and 1 on a host with two devices and on a host with one
  device.
\<close>

theorem multi_accelerator_placement_witness:
  "torch_setup_devices True 2 [0, 1] (example_trainer (Network (0::nat) ''cpu'')) =
     (example_trainer (Network 0 ''cpu''))
       \<lparr>use_gpu := True, input_device := Some ''cuda:0'',
         module := DataParallel (Network 0 ''cuda:0'') [0, 1] 1,
         output_device := Some ''cuda:1''\<rparr>
   \<and> torch_setup_devices True 1 [0, 1] (example_trainer (Network (0::nat) ''cpu'')) =
     (example_trainer (Network 0 ''cpu''))
       \<lparr>use_gpu := True, input_device := Some ''cuda:0'',
         module := Network 0 ''cuda:0'', output_device := Some ''cuda:0''\<rparr>"
  using multi_accelerator_placement [where gpu_ids = "[0, 1]" and device_count = 2
      and tr = "example_trainer (Network (0::nat) ''cpu'')"]
    multi_accelerator_placement [where gpu_ids = "[0, 1]" and device_count = 1
      and tr = "example_trainer (Network (0::nat) ''cpu'')"]
  by (simp add: example_trainer_def format_d_def show_nat.simps digit_char_def)

text \<open>
  The claim as first stated fails for PyTorch: two requested ids and a successful probe
  on a host that counts one device leave the module unwrapped on \<open>cuda:0\<close>, which is also
  the output device.
\<close>

theorem torch_two_ids_one_device_unwrapped:
  "torch_setup_devices True 1 [0, 1] (example_trainer (Network (0::nat) ''cpu'')) =
     (example_trainer (Network 0 ''cpu''))
       \<lparr>use_gpu := True, input_device := Some ''cuda:0'',
         module := Network 0 ''cuda:0'', output_device := Some ''cuda:0''\<rparr>"
  by code_simp

section \<open>Decimal names parse back\<close>

text \<open>
  What the resume scan needs of \<open>"%d"\<close> and \<open>int()\<close>: the formatted epoch is a
  non-empty run of digits after an optional minus sign, it contains neither \<open>_\<close> nor
  \<open>.\<close>, and \<open>int\<close> reads it back.
\<close>

lemma digit_cases: "d < 10 \<Longrightarrow> d \<in> {0, 1, 2, 3, 4, 5, 6, 7, 8, 9::nat}"
  by auto

lemma digit_char_is_digit: "d < 10 \<Longrightarrow> is_digit (digit_char d)"
  using digit_cases [of d] by (auto simp: is_digit_def digit_char_def)

lemma digit_val_digit_char: "d < 10 \<Longrightarrow> digit_val (digit_char d) = d"
  using digit_cases [of d] by (auto simp: digit_val_def digit_char_def)

lemma show_nat_digits: "show_nat n \<noteq> [] \<and> (\<forall>c\<in>set (show_nat n). is_digit c)"
proof (induction n rule: show_nat.induct)
  case (1 n)
  show ?case
  proof (cases "n < 10")
    case True
    then show ?thesis by (simp add: show_nat.simps [of n] digit_char_is_digit)
  next
    case False
    with "1" show ?thesis
      by (simp add: show_nat.simps [of n] digit_char_is_digit)
  qed
qed

lemma is_digit_not_special:
  "is_digit c \<Longrightarrow> c \<noteq> CHR ''_'' \<and> c \<noteq> CHR ''.'' \<and> c \<noteq> CHR ''-'' \<and> c \<noteq> CHR ''+'' \<and> c \<noteq> CHR ''t'' \<and> c \<noteq> CHR ''h'' \<and> c \<noteq> CHR ''n'' \<and> \<not> is_space c"
  by (auto simp: is_digit_def is_space_def)

lemma foldl_digits_show_nat:
  "foldl (\<lambda>a c. a * 10 + digit_val c) 0 (show_nat n) = n"
proof (induction n rule: show_nat.induct)
  case (1 n)
  show ?case
  proof (cases "n < 10")
    case True
    then show ?thesis by (simp add: show_nat.simps [of n] digit_val_digit_char)
  next
    case False
    with "1" show ?thesis
      by (simp add: show_nat.simps [of n] digit_val_digit_char)
  qed
qed

lemma body_val_show_nat: "body_val (show_nat n) = n"
proof -
  have "filter (\<lambda>c. c \<noteq> CHR ''_'') (show_nat n) = show_nat n"
    using show_nat_digits [of n] is_digit_not_special by (auto simp: filter_id_conv)
  then show ?thesis by (simp add: body_val_def foldl_digits_show_nat)
qed

lemma valid_body_digits: "s \<noteq> [] \<Longrightarrow> \<forall>c\<in>set s. is_digit c \<Longrightarrow> valid_body s"
proof (induction s rule: valid_body.induct)
  case 1
  then show ?case by simp
next
  case (2 c)
  then show ?case by simp
next
  case (3 c d r)
  then show ?case using is_digit_not_special [of d] by simp
qed

lemma dropWhile_hd: "s \<noteq> [] \<Longrightarrow> \<not> P (hd s) \<Longrightarrow> dropWhile P s = s"
  by (cases s) auto

lemma strip_id: "s \<noteq> [] \<Longrightarrow> \<not> is_space (hd s) \<Longrightarrow> \<not> is_space (last s) \<Longrightarrow> strip s = s"
  by (simp add: strip_def dropWhile_hd hd_rev)

lemma py_int_show_nat: "py_int (show_nat n) = Inr (int n)"
proof -
  let ?s = "show_nat n"
  have ne: "?s \<noteq> []" and dig: "\<forall>c\<in>set ?s. is_digit c"
    using show_nat_digits [of n] by auto
  have hd: "is_digit (hd ?s)" and lst: "is_digit (last ?s)"
    using ne dig by auto
  have st: "strip ?s = ?s"
    using ne hd lst is_digit_not_special by (auto intro: strip_id)
  show ?thesis
    using ne hd is_digit_not_special [of "hd ?s"] valid_body_digits [OF ne dig]
    by (simp add: py_int_def st body_val_show_nat)
qed

lemma py_int_minus_show_nat: "0 < n \<Longrightarrow> py_int (CHR ''-'' # show_nat n) = Inr (- int n)"
proof -
  let ?s = "show_nat n"
  have ne: "?s \<noteq> []" and dig: "\<forall>c\<in>set ?s. is_digit c"
    using show_nat_digits [of n] by auto
  have lst: "is_digit (last ?s)"
    using ne dig by auto
  have st: "strip (CHR ''-'' # ?s) = CHR ''-'' # ?s"
    using ne lst is_digit_not_special [of "last ?s"]
    by (intro strip_id) (auto simp: is_space_def)
  show ?thesis
    using valid_body_digits [OF ne dig]
    by (simp add: py_int_def st body_val_show_nat)
qed

lemma py_int_format_d: "py_int (format_d i) = Inr i"
  by (cases "i < 0") (simp_all add: format_d_def py_int_show_nat py_int_minus_show_nat)

lemma format_d_chars:
  "format_d i \<noteq> [] \<and> CHR ''_'' \<notin> set (format_d i) \<and> CHR ''.'' \<notin> set (format_d i)
   \<and> is_digit (last (format_d i))"
  using show_nat_digits [of "nat i"] show_nat_digits [of "nat (- i)"] is_digit_not_special
  by (auto simp: format_d_def)

lemma takeWhile_not_sep: "sep \<notin> set s \<Longrightarrow> takeWhile (\<lambda>c. c \<noteq> sep) (rev s) = rev s"
  by (auto simp: takeWhile_eq_all_conv)

lemma dropWhile_not_sep: "sep \<notin> set s \<Longrightarrow> dropWhile (\<lambda>c. c \<noteq> sep) (rev s) = []"
  by (auto simp: dropWhile_eq_Nil_conv)

lemma rsplit1_last:
  "sep \<notin> set s \<Longrightarrow> last (rsplit1 (pre @ sep # s) sep) = s"
  by (simp add: rsplit1_def takeWhile_tail takeWhile_not_sep)

lemma rsplit1_hd:
  "sep \<notin> set e \<Longrightarrow> hd (rsplit1 (s @ sep # e) sep) = s"
  by (simp add: rsplit1_def dropWhile_append3 dropWhile_not_sep)

lemma epoch_of_name_periodic:
  assumes "CHR ''_'' \<notin> set e" and "CHR ''.'' \<notin> set e"
  shows "epoch_of_name (pre @ CHR ''_'' # format_d i @ CHR ''.'' # e) = Inr i"
proof -
  have "CHR ''_'' \<notin> set (format_d i @ CHR ''.'' # e)"
    using assms format_d_chars [of i] by simp
  then have "last (rsplit1 (pre @ CHR ''_'' # format_d i @ CHR ''.'' # e) (CHR ''_''))
      = format_d i @ CHR ''.'' # e"
    by (rule rsplit1_last)
  then show ?thesis
    using assms by (simp add: epoch_of_name_def rsplit1_hd py_int_format_d)
qed

lemma epoch_of_name_pt: "epoch_of_name (''checkpoint_epoch_'' @ format_d i @ ''.pt'') = Inr i"
  using epoch_of_name_periodic [of "''pt''" "''checkpoint_epoch''" i] by simp

lemma epoch_of_name_pth: "epoch_of_name (''checkpoint_epoch_'' @ format_d i @ ''.pth'') = Inr i"
  using epoch_of_name_periodic [of "''pth''" "''checkpoint_epoch''" i] by simp

lemma epoch_of_name_chain: "epoch_of_name (''checkpoint_epoch_'' @ format_d i @ ''.chain'') = Inr i"
  using epoch_of_name_periodic [of "''chain''" "''checkpoint_epoch''" i] by simp

lemma startswith_periodic: "startswith (''checkpoint_epoch_'' @ s) ''checkpoint''"
  by (simp add: startswith_def)

lemma format_d_snoc: "\<exists>ds c. format_d i = ds @ [c] \<and> is_digit c"
  using format_d_chars [of i] by (metis append_butlast_last_id)

lemma not_best_periodic:
  "\<not> endswith (pre @ format_d i @ ''.pt'') ''_best.pt''"
  "\<not> endswith (pre @ format_d i @ ''.pt'') ''_best.pth''"
  "\<not> endswith (pre @ format_d i @ ''.pth'') ''_best.pt''"
  "\<not> endswith (pre @ format_d i @ ''.pth'') ''_best.pth''"
  "\<not> endswith (pre @ format_d i @ ''.chain'') ''_best.chain''"
  using format_d_snoc [of i]
  by (auto simp: endswith_def suffix_to_prefix is_digit_def)

lemma py_max_Max: "xs \<noteq> [] \<Longrightarrow> py_max xs = Max (set xs)"
proof -
  assume "xs \<noteq> []"
  then obtain a ys where xs: "xs = a # ys" by (cases xs) auto
  have "foldl max a ys = fold max ys a"
    by (simp add: foldl_conv_fold max.commute)
  also have "\<dots> = Max (set (a # ys))"
    by (rule Max.set_eq_fold [symmetric])
  finally show ?thesis
    by (simp add: py_max_def xs)
qed

lemma epochs_of_names_all:
  "\<forall>x\<in>set xs. \<exists>n. epoch_of_name x = Inr n \<Longrightarrow>
     \<exists>ns. epochs_of_names xs = Inr ns \<and> length ns = length xs
        \<and> set ns = {n. \<exists>x\<in>set xs. epoch_of_name x = Inr n}"
proof (induction xs)
  case Nil
  then show ?case by simp
next
  case (Cons x xs)
  then obtain n where n: "epoch_of_name x = Inr n" by auto
  from Cons obtain ns where ns: "epochs_of_names xs = Inr ns" "length ns = length xs"
    "set ns = {n. \<exists>x\<in>set xs. epoch_of_name x = Inr n}" by auto
  show ?case using n ns by auto
qed

lemma butlast_path_join: "b \<noteq> [] \<Longrightarrow> butlast (path_join a (b @ [c])) = path_join a b"
  by (cases b) (auto simp: path_join_def startswith_def butlast_append)

lemma latest_of_files:
  assumes ne: "files \<noteq> []"
    and per: "\<forall>x\<in>set files. \<exists>n. epoch_of_name x = Inr n"
  shows "\<exists>ns. epochs_of_names files = Inr ns
           \<and> (\<exists>x\<in>set files. epoch_of_name x = Inr (py_max ns))
           \<and> (\<forall>x\<in>set files. \<forall>m. epoch_of_name x = Inr m \<longrightarrow> m \<le> py_max ns)"
proof -
  from epochs_of_names_all [OF per] obtain ns where ns: "epochs_of_names files = Inr ns"
    "length ns = length files" "set ns = {n. \<exists>x\<in>set files. epoch_of_name x = Inr n}"
    by blast
  from ne ns(2) have nne: "ns \<noteq> []" by auto
  then have mx: "py_max ns = Max (set ns)" by (rule py_max_Max)
  have "Max (set ns) \<in> set ns" using nne by simp
  then have a: "\<exists>x\<in>set files. epoch_of_name x = Inr (py_max ns)"
    using ns(3) mx by auto
  have b: "\<forall>x\<in>set files. \<forall>m. epoch_of_name x = Inr m \<longrightarrow> m \<le> py_max ns"
  proof (intro ballI allI impI)
    fix x m assume "x \<in> set files" "epoch_of_name x = Inr m"
    then have "m \<in> set ns" using ns(3) by auto
    then show "m \<le> py_max ns" using mx by simp
  qed
  from ns(1) a b show ?thesis by blast
qed


section \<open>Properties of the resume scan\<close>

lemma torch_resume_selects_max:
  assumes dir: "isdir os (save_path tr)"
    and names: "\<forall>x\<in>set (listdir os (save_path tr)).
        isfile os (path_join (save_path tr) x) \<and> startswith x ''checkpoint'' \<longrightarrow>
          x = ''checkpoint_best.pt'' \<or> x = ''checkpoint_best.pth''
          \<or> (\<exists>n. x = ''checkpoint_epoch_'' @ format_d n @ ''.pt''
                 \<or> x = ''checkpoint_epoch_'' @ format_d n @ ''.pth'')"
    and some: "\<exists>x\<in>set (listdir os (save_path tr)). isfile os (path_join (save_path tr) x)
          \<and> (\<exists>n. x = ''checkpoint_epoch_'' @ format_d n @ ''.pt''
                 \<or> x = ''checkpoint_epoch_'' @ format_d n @ ''.pth'')"
  shows "\<exists>n. (\<exists>x\<in>set (listdir os (save_path tr)). isfile os (path_join (save_path tr) x)
                \<and> (x = ''checkpoint_epoch_'' @ format_d n @ ''.pt''
                     \<or> x = ''checkpoint_epoch_'' @ format_d n @ ''.pth''))
            \<and> (\<forall>m. \<forall>x\<in>set (listdir os (save_path tr)).
                  isfile os (path_join (save_path tr) x)
                  \<and> (x = ''checkpoint_epoch_'' @ format_d m @ ''.pt''
                       \<or> x = ''checkpoint_epoch_'' @ format_d m @ ''.pth'') \<longrightarrow> m \<le> n)
            \<and> torch_setup_resume lc os tr =
                torch_resume_from lc
                  (path_join (save_path tr)
                     (''checkpoint_epoch_'' @ format_d n @
                        (if isfile os (path_join (save_path tr)
                                         (''checkpoint_epoch_'' @ format_d n @ ''.pth''))
                         then ''.pth'' else ''.pt''))) tr"
proof -
  let ?sp = "save_path tr"
  let ?files = "torch_files os ?sp"
  have in_files: "x \<in> set ?files"
    if "x \<in> set (listdir os ?sp)" "isfile os (path_join ?sp x)"
      "x = ''checkpoint_epoch_'' @ format_d m @ ''.pt''
       \<or> x = ''checkpoint_epoch_'' @ format_d m @ ''.pth''" for x m
    using that startswith_periodic not_best_periodic [of "''checkpoint_epoch_''" m]
    by (auto simp: torch_files_def)
  have shape: "\<exists>n. x = ''checkpoint_epoch_'' @ format_d n @ ''.pt''
                 \<or> x = ''checkpoint_epoch_'' @ format_d n @ ''.pth''"
    if "x \<in> set ?files" for x
  proof -
    from that have x: "x \<in> set (listdir os ?sp)" "isfile os (path_join ?sp x)"
      "startswith x ''checkpoint''" "\<not> endswith x ''_best.pth''" "\<not> endswith x ''_best.pt''"
      by (auto simp: torch_files_def)
    have "endswith ''checkpoint_best.pt'' ''_best.pt''"
      "endswith ''checkpoint_best.pth'' ''_best.pth''"
      by (simp_all add: endswith_def suffix_to_prefix)
    with x names show ?thesis by blast
  qed
  have parse: "\<exists>n. epoch_of_name x = Inr n" if "x \<in> set ?files" for x
    using shape [OF that] epoch_of_name_pt epoch_of_name_pth by auto
  from some in_files have ne: "?files \<noteq> []" by fastforce
  from latest_of_files [OF ne] parse obtain ns where ns: "epochs_of_names ?files = Inr ns"
    and top: "\<exists>x\<in>set ?files. epoch_of_name x = Inr (py_max ns)"
    and ub: "\<forall>x\<in>set ?files. \<forall>m. epoch_of_name x = Inr m \<longrightarrow> m \<le> py_max ns"
    by blast
  let ?n = "py_max ns"
  from top obtain x where x: "x \<in> set ?files" "epoch_of_name x = Inr ?n" by blast
  from shape [OF x(1)] obtain k where k: "x = ''checkpoint_epoch_'' @ format_d k @ ''.pt''
      \<or> x = ''checkpoint_epoch_'' @ format_d k @ ''.pth''" by blast
  with x(2) have "k = ?n" using epoch_of_name_pt [of k] epoch_of_name_pth [of k] by auto
  with k x(1) have c1: "\<exists>x\<in>set (listdir os ?sp). isfile os (path_join ?sp x)
        \<and> (x = ''checkpoint_epoch_'' @ format_d ?n @ ''.pt''
             \<or> x = ''checkpoint_epoch_'' @ format_d ?n @ ''.pth'')"
    by (auto simp: torch_files_def)
  have c2: "\<forall>m. \<forall>x\<in>set (listdir os ?sp). isfile os (path_join ?sp x)
        \<and> (x = ''checkpoint_epoch_'' @ format_d m @ ''.pt''
             \<or> x = ''checkpoint_epoch_'' @ format_d m @ ''.pth'') \<longrightarrow> m \<le> ?n"
  proof (intro allI ballI impI)
    fix m x
    assume xin: "x \<in> set (listdir os ?sp)"
      and h: "isfile os (path_join ?sp x)
        \<and> (x = ''checkpoint_epoch_'' @ format_d m @ ''.pt''
             \<or> x = ''checkpoint_epoch_'' @ format_d m @ ''.pth'')"
    then have "x \<in> set ?files" using in_files by blast
    moreover have "epoch_of_name x = Inr m"
      using h epoch_of_name_pt [of m] epoch_of_name_pth [of m] by auto
    ultimately show "m \<le> ?n" using ub by blast
  qed
  have bl: "butlast (path_join ?sp (''checkpoint_epoch_'' @ format_d ?n @ ''.pth''))
      = path_join ?sp (''checkpoint_epoch_'' @ format_d ?n @ ''.pt'')"
    using butlast_path_join [of "''checkpoint_epoch_'' @ format_d ?n @ ''.pt''" ?sp "CHR ''h''"]
    by simp
  have c3: "torch_setup_resume lc os tr =
      torch_resume_from lc
        (path_join ?sp (''checkpoint_epoch_'' @ format_d ?n @
           (if isfile os (path_join ?sp (''checkpoint_epoch_'' @ format_d ?n @ ''.pth''))
            then ''.pth'' else ''.pt''))) tr"
    using dir ne ns bl
    by (simp add: torch_setup_resume_def torch_latest_state_path_def Let_def)
  from c1 c2 c3 show ?thesis by blast
qed

lemma chainer_resume_selects_max:
  assumes dir: "isdir os (save_path tr)"
    and names: "\<forall>x\<in>set (listdir os (save_path tr)).
        isfile os (path_join (save_path tr) x) \<and> startswith x ''checkpoint'' \<longrightarrow>
          x = ''checkpoint_best.chain''
          \<or> (\<exists>n. x = ''checkpoint_epoch_'' @ format_d n @ ''.chain'')"
    and some: "\<exists>x\<in>set (listdir os (save_path tr)). isfile os (path_join (save_path tr) x)
          \<and> (\<exists>n. x = ''checkpoint_epoch_'' @ format_d n @ ''.chain'')"
  shows "\<exists>n. (\<exists>x\<in>set (listdir os (save_path tr)). isfile os (path_join (save_path tr) x)
                \<and> x = ''checkpoint_epoch_'' @ format_d n @ ''.chain'')
            \<and> (\<forall>m. \<forall>x\<in>set (listdir os (save_path tr)).
                  isfile os (path_join (save_path tr) x)
                  \<and> x = ''checkpoint_epoch_'' @ format_d m @ ''.chain'' \<longrightarrow> m \<le> n)
            \<and> chainer_setup_resume lc os tr =
                chainer_resume_from lc
                  (path_join (save_path tr) (''checkpoint_epoch_'' @ format_d n @ ''.chain'')) tr"
proof -
  let ?sp = "save_path tr"
  let ?files = "chainer_files os ?sp"
  have in_files: "x \<in> set ?files"
    if "x \<in> set (listdir os ?sp)" "isfile os (path_join ?sp x)"
      "x = ''checkpoint_epoch_'' @ format_d m @ ''.chain''" for x m
    using that startswith_periodic not_best_periodic [of "''checkpoint_epoch_''" m]
    by (auto simp: chainer_files_def)
  have shape: "\<exists>n. x = ''checkpoint_epoch_'' @ format_d n @ ''.chain''"
    if "x \<in> set ?files" for x
  proof -
    from that have x: "x \<in> set (listdir os ?sp)" "isfile os (path_join ?sp x)"
      "startswith x ''checkpoint''" "\<not> endswith x ''_best.chain''"
      by (auto simp: chainer_files_def)
    have "endswith ''checkpoint_best.chain'' ''_best.chain''"
      by (simp add: endswith_def suffix_to_prefix)
    with x names show ?thesis by blast
  qed
  have parse: "\<exists>n. epoch_of_name x = Inr n" if "x \<in> set ?files" for x
    using shape [OF that] epoch_of_name_chain by auto
  from some in_files have ne: "?files \<noteq> []" by fastforce
  from latest_of_files [OF ne] parse obtain ns where ns: "epochs_of_names ?files = Inr ns"
    and top: "\<exists>x\<in>set ?files. epoch_of_name x = Inr (py_max ns)"
    and ub: "\<forall>x\<in>set ?files. \<forall>m. epoch_of_name x = Inr m \<longrightarrow> m \<le> py_max ns"
    by blast
  let ?n = "py_max ns"
  from top obtain x where x: "x \<in> set ?files" "epoch_of_name x = Inr ?n" by blast
  from shape [OF x(1)] obtain k where k: "x = ''checkpoint_epoch_'' @ format_d k @ ''.chain''"
    by blast
  with x(2) have "k = ?n" using epoch_of_name_chain [of k] by auto
  with k x(1) have c1: "\<exists>x\<in>set (listdir os ?sp). isfile os (path_join ?sp x)
        \<and> x = ''checkpoint_epoch_'' @ format_d ?n @ ''.chain''"
    by (auto simp: chainer_files_def)
  then have primary: "isfile os (path_join ?sp (''checkpoint_epoch_'' @ format_d ?n @ ''.chain''))"
    by blast
  have c2: "\<forall>m. \<forall>x\<in>set (listdir os ?sp). isfile os (path_join ?sp x)
        \<and> x = ''checkpoint_epoch_'' @ format_d m @ ''.chain'' \<longrightarrow> m \<le> ?n"
  proof (intro allI ballI impI)
    fix m x
    assume xin: "x \<in> set (listdir os ?sp)"
      and h: "isfile os (path_join ?sp x) \<and> x = ''checkpoint_epoch_'' @ format_d m @ ''.chain''"
    then have "x \<in> set ?files" using in_files by blast
    moreover have "epoch_of_name x = Inr m"
      using h epoch_of_name_chain [of m] by auto
    ultimately show "m \<le> ?n" using ub by blast
  qed
  have c3: "chainer_setup_resume lc os tr =
      chainer_resume_from lc
        (path_join ?sp (''checkpoint_epoch_'' @ format_d ?n @ ''.chain'')) tr"
    using dir ne ns primary
    by (simp add: chainer_setup_resume_def chainer_latest_state_path_def Let_def)
  from c1 c2 c3 show ?thesis by blast
qed


text \<open>
  C2 (amended). The scan takes every file whose name starts with \<open>checkpoint\<close>, not
  only those that start with \<open>checkpoint_epoch_\<close>. Let the save path be a directory in
  which every file whose name starts with \<open>checkpoint\<close> is either a best-checkpoint file
  or a periodic checkpoint file of some epoch, with at least one of the latter. Then the resume scan leaves the best-checkpoint
  files out, parses the epoch of every periodic file and resumes from the file of the
  greatest epoch \<open>n\<close>: setup continues as the \<open>try\<close> block does on
  \<open>checkpoint_epoch_n\<close> (for PyTorch with \<open>.pth\<close> if that file exists, else with
  \<open>.pt\<close>; for Chainer with \<open>.chain\<close>). The first conjunct is the PyTorch trainer, the
  second the Chainer trainer.
\<close>

theorem resume_selects_max_epoch:
  "(isdir os (save_path tr)
    \<and> (\<forall>x\<in>set (listdir os (save_path tr)).
          isfile os (path_join (save_path tr) x) \<and> startswith x ''checkpoint'' \<longrightarrow>
            x = ''checkpoint_best.pt'' \<or> x = ''checkpoint_best.pth''
            \<or> (\<exists>n. torch_epoch_file os (save_path tr) n x))
    \<and> (\<exists>x\<in>set (listdir os (save_path tr)). \<exists>n. torch_epoch_file os (save_path tr) n x)
    \<longrightarrow>
      (\<exists>n. (\<exists>x\<in>set (listdir os (save_path tr)). torch_epoch_file os (save_path tr) n x)
          \<and> (\<forall>m. \<forall>x\<in>set (listdir os (save_path tr)).
                 torch_epoch_file os (save_path tr) m x \<longrightarrow> m \<le> n)
          \<and> torch_setup_resume lc os tr =
              torch_resume_from lc
                (path_join (save_path tr)
                   (''checkpoint_epoch_'' @ format_d n @
                      (if isfile os (path_join (save_path tr)
                                       (''checkpoint_epoch_'' @ format_d n @ ''.pth''))
                       then ''.pth'' else ''.pt''))) tr))
   \<and> (isdir os (save_path ctr)
    \<and> (\<forall>x\<in>set (listdir os (save_path ctr)).
          isfile os (path_join (save_path ctr) x) \<and> startswith x ''checkpoint'' \<longrightarrow>
            x = ''checkpoint_best.chain''
            \<or> (\<exists>n. chainer_epoch_file os (save_path ctr) n x))
    \<and> (\<exists>x\<in>set (listdir os (save_path ctr)). \<exists>n. chainer_epoch_file os (save_path ctr) n x)
    \<longrightarrow>
      (\<exists>n. (\<exists>x\<in>set (listdir os (save_path ctr)). chainer_epoch_file os (save_path ctr) n x)
          \<and> (\<forall>m. \<forall>x\<in>set (listdir os (save_path ctr)).
                 chainer_epoch_file os (save_path ctr) m x \<longrightarrow> m \<le> n)
          \<and> chainer_setup_resume clc os ctr =
              chainer_resume_from clc
                (path_join (save_path ctr) (''checkpoint_epoch_'' @ format_d n @ ''.chain''))
                ctr))"
proof (intro conjI impI)
  assume "isdir os (save_path tr)
    \<and> (\<forall>x\<in>set (listdir os (save_path tr)).
          isfile os (path_join (save_path tr) x) \<and> startswith x ''checkpoint'' \<longrightarrow>
            x = ''checkpoint_best.pt'' \<or> x = ''checkpoint_best.pth''
            \<or> (\<exists>n. torch_epoch_file os (save_path tr) n x))
    \<and> (\<exists>x\<in>set (listdir os (save_path tr)). \<exists>n. torch_epoch_file os (save_path tr) n x)"
  then show "\<exists>n. (\<exists>x\<in>set (listdir os (save_path tr)). torch_epoch_file os (save_path tr) n x)
          \<and> (\<forall>m. \<forall>x\<in>set (listdir os (save_path tr)).
                 torch_epoch_file os (save_path tr) m x \<longrightarrow> m \<le> n)
          \<and> torch_setup_resume lc os tr =
              torch_resume_from lc
                (path_join (save_path tr)
                   (''checkpoint_epoch_'' @ format_d n @
                      (if isfile os (path_join (save_path tr)
                                       (''checkpoint_epoch_'' @ format_d n @ ''.pth''))
                       then ''.pth'' else ''.pt''))) tr"
    using torch_resume_selects_max [of os tr lc] by blast
next
  assume "isdir os (save_path ctr)
    \<and> (\<forall>x\<in>set (listdir os (save_path ctr)).
          isfile os (path_join (save_path ctr) x) \<and> startswith x ''checkpoint'' \<longrightarrow>
            x = ''checkpoint_best.chain''
            \<or> (\<exists>n. chainer_epoch_file os (save_path ctr) n x))
    \<and> (\<exists>x\<in>set (listdir os (save_path ctr)). \<exists>n. chainer_epoch_file os (save_path ctr) n x)"
  then show "\<exists>n. (\<exists>x\<in>set (listdir os (save_path ctr)). chainer_epoch_file os (save_path ctr) n x)
          \<and> (\<forall>m. \<forall>x\<in>set (listdir os (save_path ctr)).
                 chainer_epoch_file os (save_path ctr) m x \<longrightarrow> m \<le> n)
          \<and> chainer_setup_resume clc os ctr =
              chainer_resume_from clc
                (path_join (save_path ctr) (''checkpoint_epoch_'' @ format_d n @ ''.chain''))
                ctr"
    using chainer_resume_selects_max [of os ctr clc] by blast
qed

text \<open>
  The theorem at work: with the periodic checkpoints of the epochs 1, 3 and 7 and a best
  checkpoint in the save path, both trainers resume from the file of epoch 7, whose
  model, optimizer state and epoch they take over.
\<close>

theorem resume_selects_max_epoch_witness:
  "torch_setup_resume
     (load_checkpoint (map_of [(''ckpts/checkpoint_epoch_7.pt'',
        \<lparr>ck_model = Some 9, ck_optimizer = Some [(''default'', 4)], ck_epoch = Some 7,
         ck_other = []\<rparr>)]))
     (example_os [''checkpoint_epoch_1.pt'', ''checkpoint_epoch_7.pt'', ''checkpoint_best.pt'',
                  ''checkpoint_epoch_3.pt''])
     (example_trainer (Network (0::nat) ''cpu'')) =
   Done ((example_trainer (Network 0 ''cpu''))
           \<lparr>module := Network 9 ''cpu'', optimizers := [(''default'', 4)], start_epoch := 7,
             logged := [Info_attempting_to_load ''ckpts/checkpoint_epoch_7.pt'']\<rparr>)
   \<and> chainer_setup_resume
     (load_checkpoint (map_of [(''ckpts/checkpoint_epoch_7.chain'',
        \<lparr>ck_model = Some (Link 9 ''@numpy''), ck_optimizer = Some [(''default'', 4)],
         ck_epoch = Some 7, ck_other = []\<rparr>)]))
     (example_os [''checkpoint_epoch_1.chain'', ''checkpoint_epoch_7.chain'',
                  ''checkpoint_best.chain'', ''checkpoint_epoch_3.chain''])
     (example_trainer (Link (0::nat) ''@numpy'')) =
   Done ((example_trainer (Link 0 ''@numpy''))
           \<lparr>module := Link 9 ''@numpy'', optimizers := [(''default'', 4)], start_epoch := 7,
             logged := [Info_attempting_to_load ''ckpts/checkpoint_epoch_7.chain'']\<rparr>)"
proof
  let ?os = "example_os [''checkpoint_epoch_1.pt'', ''checkpoint_epoch_7.pt'',
                         ''checkpoint_best.pt'', ''checkpoint_epoch_3.pt'']"
  let ?tr = "example_trainer (Network (0::nat) ''cpu'')"
  let ?lc = "load_checkpoint (map_of [(''ckpts/checkpoint_epoch_7.pt'',
        \<lparr>ck_model = Some (9::nat), ck_optimizer = Some [(''default'', 4::nat)], ck_epoch = Some 7,
         ck_other = []\<rparr>)]) ::
    (nat torch_module, nat, nat, nat, nat) loader"
  have sp: "save_path ?tr = ''ckpts''" by (simp add: example_trainer_def)
  have ls: "listdir ?os ''ckpts'' = [''checkpoint_epoch_1.pt'', ''checkpoint_epoch_7.pt'',
      ''checkpoint_best.pt'', ''checkpoint_epoch_3.pt'']"
    by (simp add: example_os_def)
  have e1: "torch_epoch_file ?os ''ckpts'' 1 ''checkpoint_epoch_1.pt''" by code_simp
  have e3: "torch_epoch_file ?os ''ckpts'' 3 ''checkpoint_epoch_3.pt''" by code_simp
  have e7: "torch_epoch_file ?os ''ckpts'' 7 ''checkpoint_epoch_7.pt''" by code_simp
  have dir: "isdir ?os (save_path ?tr)" by (simp add: sp example_os_def)
  have names: "\<forall>x\<in>set (listdir ?os (save_path ?tr)).
      isfile ?os (path_join (save_path ?tr) x) \<and> startswith x ''checkpoint'' \<longrightarrow>
        x = ''checkpoint_best.pt'' \<or> x = ''checkpoint_best.pth''
        \<or> (\<exists>n. torch_epoch_file ?os (save_path ?tr) n x)"
    unfolding sp ls using e1 e3 e7 by auto
  have some: "\<exists>x\<in>set (listdir ?os (save_path ?tr)). \<exists>n. torch_epoch_file ?os (save_path ?tr) n x"
    unfolding sp ls using e7 by auto
  from resume_selects_max_epoch [where os = ?os and tr = ?tr and lc = ?lc,
      THEN conjunct1, rule_format, OF conjI [OF dir conjI [OF names some]]]
  obtain n where top: "\<exists>x\<in>set (listdir ?os (save_path ?tr)). torch_epoch_file ?os (save_path ?tr) n x"
    and ub: "\<forall>m. \<forall>x\<in>set (listdir ?os (save_path ?tr)).
                 torch_epoch_file ?os (save_path ?tr) m x \<longrightarrow> m \<le> n"
    and res: "torch_setup_resume ?lc ?os ?tr =
              torch_resume_from ?lc
                (path_join (save_path ?tr)
                   (''checkpoint_epoch_'' @ format_d n @
                      (if isfile ?os (path_join (save_path ?tr)
                                       (''checkpoint_epoch_'' @ format_d n @ ''.pth''))
                       then ''.pth'' else ''.pt''))) ?tr"
    by blast
  have "''checkpoint_epoch_7.pt'' \<in> set (listdir ?os (save_path ?tr))"
    unfolding sp ls by simp
  with ub e7 have "7 \<le> n" unfolding sp by blast
  have p: "epoch_of_name ''checkpoint_epoch_1.pt'' = Inr 1"
    "epoch_of_name ''checkpoint_epoch_7.pt'' = Inr 7"
    "epoch_of_name ''checkpoint_epoch_3.pt'' = Inr 3"
    "epoch_of_name ''checkpoint_best.pt'' = Inl ValueError"
    by code_simp+
  from top obtain x where x: "x \<in> set (listdir ?os ''ckpts'')"
    "x = ''checkpoint_epoch_'' @ format_d n @ ''.pt'' \<or> x = ''checkpoint_epoch_'' @ format_d n @ ''.pth''"
    unfolding sp by blast
  then have "epoch_of_name x = Inr n"
    using epoch_of_name_pt [of n] epoch_of_name_pth [of n] by auto
  with x(1) p have "n \<in> {1, 7, 3}" unfolding ls by auto
  with \<open>7 \<le> n\<close> have n: "n = 7" by auto
  have "path_join (save_path ?tr)
                   (''checkpoint_epoch_'' @ format_d 7 @
                      (if isfile ?os (path_join (save_path ?tr)
                                       (''checkpoint_epoch_'' @ format_d 7 @ ''.pth''))
                       then ''.pth'' else ''.pt'')) = ''ckpts/checkpoint_epoch_7.pt''"
    by code_simp
  moreover have "torch_resume_from ?lc ''ckpts/checkpoint_epoch_7.pt'' ?tr =
    Done (?tr\<lparr>module := Network 9 ''cpu'', optimizers := [(''default'', 4)], start_epoch := 7,
             logged := [Info_attempting_to_load ''ckpts/checkpoint_epoch_7.pt'']\<rparr>)"
    by code_simp
  ultimately show "torch_setup_resume ?lc ?os ?tr =
    Done (?tr\<lparr>module := Network 9 ''cpu'', optimizers := [(''default'', 4)], start_epoch := 7,
             logged := [Info_attempting_to_load ''ckpts/checkpoint_epoch_7.pt'']\<rparr>)"
    using res n by simp
next
  let ?os = "example_os [''checkpoint_epoch_1.chain'', ''checkpoint_epoch_7.chain'',
                  ''checkpoint_best.chain'', ''checkpoint_epoch_3.chain'']"
  let ?tr = "example_trainer (Link (0::nat) ''@numpy'')"
  let ?lc = "load_checkpoint (map_of [(''ckpts/checkpoint_epoch_7.chain'',
        \<lparr>ck_model = Some (Link (9::nat) ''@numpy''), ck_optimizer = Some [(''default'', 4::nat)],
         ck_epoch = Some 7, ck_other = []\<rparr>)]) ::
    (nat chainer_module, nat, nat chainer_module, nat, nat) loader"
  have sp: "save_path ?tr = ''ckpts''" by (simp add: example_trainer_def)
  have ls: "listdir ?os ''ckpts'' = [''checkpoint_epoch_1.chain'', ''checkpoint_epoch_7.chain'',
                  ''checkpoint_best.chain'', ''checkpoint_epoch_3.chain'']"
    by (simp add: example_os_def)
  have e1: "chainer_epoch_file ?os ''ckpts'' 1 ''checkpoint_epoch_1.chain''" by code_simp
  have e3: "chainer_epoch_file ?os ''ckpts'' 3 ''checkpoint_epoch_3.chain''" by code_simp
  have e7: "chainer_epoch_file ?os ''ckpts'' 7 ''checkpoint_epoch_7.chain''" by code_simp
  have dir: "isdir ?os (save_path ?tr)" by (simp add: sp example_os_def)
  have names: "\<forall>x\<in>set (listdir ?os (save_path ?tr)).
      isfile ?os (path_join (save_path ?tr) x) \<and> startswith x ''checkpoint'' \<longrightarrow>
        x = ''checkpoint_best.chain''
        \<or> (\<exists>n. chainer_epoch_file ?os (save_path ?tr) n x)"
    unfolding sp ls using e1 e3 e7 by auto
  have some: "\<exists>x\<in>set (listdir ?os (save_path ?tr)). \<exists>n. chainer_epoch_file ?os (save_path ?tr) n x"
    unfolding sp ls using e7 by auto
  from resume_selects_max_epoch [where os = ?os and ctr = ?tr and clc = ?lc,
      THEN conjunct2, rule_format, OF conjI [OF dir conjI [OF names some]]]
  obtain n where top: "\<exists>x\<in>set (listdir ?os (save_path ?tr)). chainer_epoch_file ?os (save_path ?tr) n x"
    and ub: "\<forall>m. \<forall>x\<in>set (listdir ?os (save_path ?tr)).
                 chainer_epoch_file ?os (save_path ?tr) m x \<longrightarrow> m \<le> n"
    and res: "chainer_setup_resume ?lc ?os ?tr =
              chainer_resume_from ?lc
                (path_join (save_path ?tr) (''checkpoint_epoch_'' @ format_d n @ ''.chain'')) ?tr"
    by blast
  have "''checkpoint_epoch_7.chain'' \<in> set (listdir ?os (save_path ?tr))"
    unfolding sp ls by simp
  with ub e7 have "7 \<le> n" unfolding sp by blast
  have p: "epoch_of_name ''checkpoint_epoch_1.chain'' = Inr 1"
    "epoch_of_name ''checkpoint_epoch_7.chain'' = Inr 7"
    "epoch_of_name ''checkpoint_epoch_3.chain'' = Inr 3"
    "epoch_of_name ''checkpoint_best.chain'' = Inl ValueError"
    by code_simp+
  from top obtain x where x: "x \<in> set (listdir ?os ''ckpts'')"
    "x = ''checkpoint_epoch_'' @ format_d n @ ''.chain''"
    unfolding sp by blast
  then have "epoch_of_name x = Inr n"
    using epoch_of_name_chain [of n] by auto
  with x(1) p have "n \<in> {1, 7, 3}" unfolding ls by auto
  with \<open>7 \<le> n\<close> have n: "n = 7" by auto
  have "path_join (save_path ?tr) (''checkpoint_epoch_'' @ format_d 7 @ ''.chain'')
      = ''ckpts/checkpoint_epoch_7.chain''"
    by code_simp
  moreover have "chainer_resume_from ?lc ''ckpts/checkpoint_epoch_7.chain'' ?tr =
    Done (?tr\<lparr>module := Link 9 ''@numpy'', optimizers := [(''default'', 4)], start_epoch := 7,
             logged := [Info_attempting_to_load ''ckpts/checkpoint_epoch_7.chain'']\<rparr>)"
    by code_simp
  ultimately show "chainer_setup_resume ?lc ?os ?tr =
    Done (?tr\<lparr>module := Link 9 ''@numpy'', optimizers := [(''default'', 4)], start_epoch := 7,
             logged := [Info_attempting_to_load ''ckpts/checkpoint_epoch_7.chain'']\<rparr>)"
    using res n by simp
qed

text \<open>
  The claim as first stated fails: beside the periodic checkpoint of epoch 7, a file
  \<open>checkpoint_final.pt\<close>, whose name does not start with \<open>checkpoint_epoch_\<close>, is
  parsed as well and its \<open>ValueError\<close> leaves the setup; a file
  \<open>checkpoints_v2_12.txt\<close> makes the scan look for the checkpoint of epoch 12.
\<close>

theorem resume_scan_reads_other_checkpoint_names:
  "torch_setup_resume
     (load_checkpoint (map_of [(''ckpts/checkpoint_epoch_7.pt'',
        \<lparr>ck_model = Some 9, ck_optimizer = Some [(''default'', 4)], ck_epoch = Some 7,
         ck_other = []\<rparr>)]))
     (example_os [''checkpoint_epoch_7.pt'', ''checkpoint_final.pt''])
     (example_trainer (Network (0::nat) ''cpu'')) =
   Raised ValueError (example_trainer (Network 0 ''cpu''))
   \<and> torch_setup_resume
     (load_checkpoint (map_of [(''ckpts/checkpoint_epoch_7.pth'',
        \<lparr>ck_model = Some 9, ck_optimizer = Some [(''default'', 4)], ck_epoch = Some 7,
         ck_other = []\<rparr>)]))
     (example_os [''checkpoint_epoch_7.pth'', ''checkpoints_v2_12.txt''])
     (example_trainer (Network (0::nat) ''cpu'')) =
   Raised OSError
     ((example_trainer (Network 0 ''cpu''))
        \<lparr>logged := [Info_attempting_to_load ''ckpts/checkpoint_epoch_12.pt'']\<rparr>)"
  by code_simp

section \<open>Properties of the extension fallback\<close>

text \<open>
  Both trainers put the file name into its canonical form on every call of \<open>save_state\<close>
  and \<open>load_state\<close>. The PyTorch resume looks for \<open>.pth\<close> and falls back to \<open>.pt\<close>,
  the extension its own checkpoints carry.
\<close>

lemma canonical_extension_on_save_and_load:
  "sc_file (last (saved (torch_save_state file_name epoch kwargs tr))) =
     (if endswith file_name ''.pth'' \<or> endswith file_name ''.pt''
      then file_name else file_name @ ''.pt'')
   \<and> torch_load_state lc file_name kwargs disk =
       lc disk (if endswith file_name ''.pth'' \<or> endswith file_name ''.pt''
                then file_name else file_name @ ''.pt'') kwargs
   \<and> sc_file (last (saved (chainer_save_state file_name epoch kwargs ctr))) =
       (if endswith file_name ''.chain'' then file_name else file_name @ ''.chain'')
   \<and> chainer_load_state clc file_name kwargs disk =
       clc disk (if endswith file_name ''.chain'' then file_name else file_name @ ''.chain'')
         kwargs"
  by (simp add: torch_save_state_def torch_load_state_def chainer_save_state_def
      chainer_load_state_def Let_def)

lemma torch_fallback_reads_pt:
  "torch_latest_state_path (example_os [''checkpoint_epoch_7.pt'']) ''ckpts''
     = Inr (Some ''ckpts/checkpoint_epoch_7.pt'')
   \<and> torch_load_state lc ''ckpts/checkpoint_epoch_7.pt'' kwargs disk
     = lc disk ''ckpts/checkpoint_epoch_7.pt'' kwargs
   \<and> torch_load_state lc ''ckpts/checkpoint_epoch_7'' kwargs disk
     = lc disk ''ckpts/checkpoint_epoch_7.pt'' kwargs"
proof (intro conjI)
  show "torch_latest_state_path (example_os [''checkpoint_epoch_7.pt'']) ''ckpts''
     = Inr (Some ''ckpts/checkpoint_epoch_7.pt'')"
    by code_simp
qed (simp_all add: torch_load_state_def endswith_def suffix_to_prefix)

text \<open>
  C7 (fails on the code for Chainer). When the file with the primary extension is
  absent, the resume should fall back to a secondary extension variant of the same path.
  The Chainer fallback cuts the last character off \<open>checkpoint_epoch_7.chain\<close>; the path
  \<open>checkpoint_epoch_7.chai\<close> that results does not end in \<open>.chain\<close>, so \<open>load_state\<close>
  appends \<open>.chain\<close> and reads \<open>checkpoint_epoch_7.chai.chain\<close>. Even a directory that
  holds the file \<open>checkpoint_epoch_7.chai\<close> is not resumed from: \<open>load_checkpoint\<close> is
  asked for a file that does not exist and its error leaves the setup.
\<close>

theorem chainer_fallback_never_reads_variant:
  "chainer_latest_state_path (example_os [''checkpoint_epoch_7.chai'']) ''ckpts''
     = Inr (Some ''ckpts/checkpoint_epoch_7.chai'')
   \<and> chainer_load_state lc ''ckpts/checkpoint_epoch_7.chai'' kwargs disk
     = lc disk ''ckpts/checkpoint_epoch_7.chai.chain'' kwargs
   \<and> chainer_setup_resume
       (example_loader [(''ckpts/checkpoint_epoch_7.chai'',
          \<lparr>ck_model = Some (Link 1 ''@numpy''), ck_optimizer = Some [(''default'', 1)],
           ck_epoch = Some 7, ck_other = []\<rparr>)])
       (example_os [''checkpoint_epoch_7.chai''])
       (example_trainer (Link (0::nat) ''@numpy''))
     = Raised OSError
         ((example_trainer (Link 0 ''@numpy''))
            \<lparr>logged := [Info_attempting_to_load ''ckpts/checkpoint_epoch_7.chai'']\<rparr>)"
proof (intro conjI)
  show "chainer_latest_state_path (example_os [''checkpoint_epoch_7.chai'']) ''ckpts''
     = Inr (Some ''ckpts/checkpoint_epoch_7.chai'')"
    by code_simp
  show "chainer_load_state lc ''ckpts/checkpoint_epoch_7.chai'' kwargs disk
     = lc disk ''ckpts/checkpoint_epoch_7.chai.chain'' kwargs"
    by (simp add: chainer_load_state_def endswith_def suffix_to_prefix)
  show "chainer_setup_resume
       (example_loader [(''ckpts/checkpoint_epoch_7.chai'',
          \<lparr>ck_model = Some (Link 1 ''@numpy''), ck_optimizer = Some [(''default'', 1)],
           ck_epoch = Some 7, ck_other = []\<rparr>)])
       (example_os [''checkpoint_epoch_7.chai''])
       (example_trainer (Link (0::nat) ''@numpy''))
     = Raised OSError
         ((example_trainer (Link 0 ''@numpy''))
            \<lparr>logged := [Info_attempting_to_load ''ckpts/checkpoint_epoch_7.chai'']\<rparr>)"
    by code_simp
qed


section \<open>Properties of the recovery from an unreadable checkpoint\<close>



lemma endswith_last: "endswith x (s @ [c]) \<Longrightarrow> last x = c"
  by (auto simp: endswith_def suffix_def)

lemma last_path_join: "b \<noteq> [] \<Longrightarrow> last (path_join a b) = last b"
  by (simp add: path_join_def)

lemma path_join_append:
  "b \<noteq> [] \<Longrightarrow> path_join a b @ c = path_join a (b @ c)"
  by (cases b) (simp_all add: path_join_def startswith_def)

lemma torch_save_state_pt:
  "endswith file_name ''.pt'' \<Longrightarrow>
     torch_save_state file_name epoch kwargs tr =
       tr\<lparr>saved := saved tr @ [\<lparr>sc_file = file_name, sc_model = module tr,
                                  sc_optimizers = optimizers tr, sc_kwargs = kwargs\<rparr>]\<rparr>"
  by (simp add: torch_save_state_def)

lemma torch_at_training_begin_eq:
  "torch_at_training_begin tr =
     tr\<lparr>saved := saved tr @ [\<lparr>sc_file = path_join (save_path tr) ''checkpoint_epoch_0.pt'',
                                sc_model = module tr, sc_optimizers = optimizers tr,
                                sc_kwargs = []\<rparr>]\<rparr>"
proof -
  let ?f = "path_join (save_path tr) ''checkpoint_epoch_0''"
  have l: "last ?f = CHR ''0''" by (simp add: last_path_join)
  have "\<not> endswith ?f ''.pth''" "\<not> endswith ?f ''.pt''"
    using l endswith_last [of ?f "''.pt''" "CHR ''h''"] endswith_last [of ?f "''.p''" "CHR ''t''"]
    by auto
  moreover have "?f @ ''.pt'' = path_join (save_path tr) ''checkpoint_epoch_0.pt''"
    using path_join_append [of "''checkpoint_epoch_0''" "save_path tr" "''.pt''"] by simp
  ultimately show ?thesis
    by (simp add: torch_at_training_begin_def torch_save_state_def)
qed

lemma torch_save_state_fields:
  "save_path (torch_save_state file_name epoch kwargs tr) = save_path tr
   \<and> save_freq (torch_save_state file_name epoch kwargs tr) = save_freq tr
   \<and> module (torch_save_state file_name epoch kwargs tr) = module tr
   \<and> optimizers (torch_save_state file_name epoch kwargs tr) = optimizers tr"
  by (simp add: torch_save_state_def Let_def)





end
